theory Spec2Isabelle
  imports Complex_Main
begin

section \<open>Values that reach the ledger\<close>

text \<open>
  The ledger of \<^verbatim>\<open>src/data_fetch/enhance_user_metrics.py\<close> works on what
  \<^verbatim>\<open>response.json()\<close> returns: nested Python values built from \<^verbatim>\<open>None\<close>, booleans,
  numbers, strings, lists and dicts. A dict is the list of its items (keys distinct, as in
  any Python dict). Python's \<^verbatim>\<open>int\<close> and \<^verbatim>\<open>float\<close> are both \<open>JNum\<close>: floats are
  idealised as exact reals, so rounding error, overflow, infinities and NaN are outside
  this development.
\<close>

datatype json =
    JNull
  | JBool bool
  | JNum real
  | JStr string
  | JList "json list"
  | JObj "(string \<times> json) list"

datatype error = AttributeError | TypeError | ValueError

text \<open>Truth value of a Python object, as \<^verbatim>\<open>or\<close> and \<^verbatim>\<open>not\<close> test it.\<close>

fun truthy :: "json \<Rightarrow> bool" where
  "truthy JNull = False"
| "truthy (JBool b) = b"
| "truthy (JNum r) = (r \<noteq> 0)"
| "truthy (JStr s) = (s \<noteq> [])"
| "truthy (JList xs) = (xs \<noteq> [])"
| "truthy (JObj kvs) = (kvs \<noteq> [])"

text \<open>\<^verbatim>\<open>a or b\<close>\<close>

definition py_or :: "json \<Rightarrow> json \<Rightarrow> json" where
  "py_or a b = (if truthy a then a else b)"

text \<open>\<^verbatim>\<open>d.get(k, default)\<close> on the items of a dict.\<close>

definition dict_get :: "(string \<times> json) list \<Rightarrow> string \<Rightarrow> json \<Rightarrow> json" where
  "dict_get kvs k d = (case map_of kvs k of Some v \<Rightarrow> v | None \<Rightarrow> d)"

subsection \<open>\<^verbatim>\<open>float(...)\<close>\<close>

text \<open>
  \<^verbatim>\<open>float\<close> of a string: surrounding whitespace is stripped, then an optional sign, a
  decimal mantissa (\<^verbatim>\<open>12\<close>, \<^verbatim>\<open>12.\<close>, \<^verbatim>\<open>12.5\<close>, \<^verbatim>\<open>.5\<close>) and an optional exponent.
  Anything else is \<open>None\<close>, Python's \<^verbatim>\<open>ValueError\<close>. Digit grouping with underscores
  and the spellings of infinity and NaN are not covered (they have no real value).
\<close>

definition is_space :: "char \<Rightarrow> bool" where
  "is_space c = (c \<in> set [CHR '' '', CHR 0x09, CHR 0x0A, CHR 0x0B, CHR 0x0C, CHR 0x0D])"

definition strip :: "string \<Rightarrow> string" where
  "strip s = rev (dropWhile is_space (rev (dropWhile is_space s)))"

definition digit_of :: "char \<Rightarrow> nat option" where
  "digit_of c = map_of (zip ''0123456789'' [0, 1, 2, 3, 4, 5, 6, 7, 8, 9]) c"

definition is_digit :: "char \<Rightarrow> bool" where
  "is_digit c = (digit_of c \<noteq> None)"

definition digits_val :: "string \<Rightarrow> nat" where
  "digits_val ds = foldl (\<lambda>a c. 10 * a + (case digit_of c of Some d \<Rightarrow> d | None \<Rightarrow> 0)) 0 ds"

definition split_sign :: "string \<Rightarrow> bool \<times> string" where
  "split_sign s =
     (case s of
        c # r \<Rightarrow> if c = CHR ''-'' then (True, r) else if c = CHR ''+'' then (False, r) else (False, s)
      | [] \<Rightarrow> (False, s))"

definition exponent_of :: "string \<Rightarrow> int option" where
  "exponent_of s =
     (case s of
        [] \<Rightarrow> Some 0
      | c # r \<Rightarrow>
          if c = CHR ''e'' \<or> c = CHR ''E'' then
            (let (neg, ds) = split_sign r in
             if ds \<noteq> [] \<and> list_all is_digit ds
             then Some (if neg then - int (digits_val ds) else int (digits_val ds))
             else None)
          else None)"

definition float_of_str :: "string \<Rightarrow> real option" where
  "float_of_str s =
     (let (neg, u) = split_sign (strip s);
          ip = takeWhile is_digit u;
          r1 = dropWhile is_digit u;
          (fp, r2) = (case r1 of
                        c # r \<Rightarrow> if c = CHR ''.'' then (takeWhile is_digit r, dropWhile is_digit r)
                                 else ([], r1)
                      | [] \<Rightarrow> ([], r1))
      in if ip = [] \<and> fp = [] then None
         else (case exponent_of r2 of
                 None \<Rightarrow> None
               | Some e \<Rightarrow>
                   (let m = real (digits_val ip) + real (digits_val fp) / 10 ^ length fp;
                        v = (if 0 \<le> e then m * 10 ^ nat e else m / 10 ^ nat (- e))
                    in Some (if neg then - v else v))))"

text \<open>
  \<^verbatim>\<open>float(x)\<close>: a number is itself, a bool is 1 or 0, a string is parsed,
  \<^verbatim>\<open>None\<close>, a list and a dict raise \<^verbatim>\<open>TypeError\<close>.
\<close>

fun py_float :: "json \<Rightarrow> error + real" where
  "py_float (JNum r) = Inr r"
| "py_float (JBool b) = Inr (if b then 1 else 0)"
| "py_float (JStr s) = (case float_of_str s of Some r \<Rightarrow> Inr r | None \<Rightarrow> Inl ValueError)"
| "py_float JNull = Inl TypeError"
| "py_float (JList xs) = Inl TypeError"
| "py_float (JObj kvs) = Inl TypeError"

text \<open>
  The idiom of lines 67, 68 and 184, \<^verbatim>\<open>float(item.get(k, 0) or 0)\<close>: a missing or
  falsy field reads as 0, any other value goes to \<^verbatim>\<open>float\<close>.
\<close>

definition float_field :: "(string \<times> json) list \<Rightarrow> string \<Rightarrow> error + real" where
  "float_field kvs k = py_float (py_or (dict_get kvs k (JNum 0)) (JNum 0))"

subsection \<open>\<^verbatim>\<open>str.upper()\<close>\<close>

text \<open>
  Only a string has the method. The ASCII letters are mapped; every other character is
  left as it is.
\<close>

definition upper_char :: "char \<Rightarrow> char" where
  "upper_char c =
     (case map_of (zip ''abcdefghijklmnopqrstuvwxyz'' ''ABCDEFGHIJKLMNOPQRSTUVWXYZ'') c of
        Some u \<Rightarrow> u
      | None \<Rightarrow> c)"

fun py_upper :: "json \<Rightarrow> error + string" where
  "py_upper (JStr s) = Inr (map upper_char s)"
| "py_upper v = Inl AttributeError"

subsection \<open>Dict keys\<close>

text \<open>
  The position key is the tuple \<^verbatim>\<open>(market_id, outcome)\<close>. Looking it up hashes both
  components in order: a list or a dict is unhashable (\<^verbatim>\<open>TypeError\<close>). \<^verbatim>\<open>True\<close> and
  \<^verbatim>\<open>1\<close>, \<^verbatim>\<open>False\<close> and \<^verbatim>\<open>0\<close> are equal keys, so a bool is stored as its number.
\<close>

fun hash_atom :: "json \<Rightarrow> error + json" where
  "hash_atom (JList xs) = Inl TypeError"
| "hash_atom (JObj kvs) = Inl TypeError"
| "hash_atom (JBool b) = Inr (JNum (if b then 1 else 0))"
| "hash_atom v = Inr v"

type_synonym pkey = "json \<times> json"

definition position_key :: "json \<Rightarrow> json \<Rightarrow> error + pkey" where
  "position_key market_id outcome =
     (case hash_atom market_id of
        Inl e \<Rightarrow> Inl e
      | Inr m \<Rightarrow> (case hash_atom outcome of Inl e \<Rightarrow> Inl e | Inr out \<Rightarrow> Inr (m, out)))"

subsection \<open>\<^verbatim>\<open>for item in items\<close>\<close>

text \<open>
  A list yields its elements, a dict its keys, a string its characters; a number, a bool
  and \<^verbatim>\<open>None\<close> are not iterable.
\<close>

fun py_iter :: "json \<Rightarrow> error + json list" where
  "py_iter (JList xs) = Inr xs"
| "py_iter (JObj kvs) = Inr (map (\<lambda>kv. JStr (fst kv)) kvs)"
| "py_iter (JStr s) = Inr (map (\<lambda>c. JStr [c]) s)"
| "py_iter v = Inl TypeError"

text \<open>
  \<^verbatim>\<open>items = data if isinstance(data, list) else data.get("data", [])\<close>
\<close>

fun items_of :: "json \<Rightarrow> error + json" where
  "items_of (JList xs) = Inr (JList xs)"
| "items_of (JObj kvs) = Inr (dict_get kvs ''data'' (JList []))"
| "items_of v = Inl AttributeError"

subsection \<open>\<^verbatim>\<open>round(x, 2)\<close>\<close>

text \<open>Rounding to two decimals, a tie going to the even neighbour.\<close>

definition round_half_even :: "real \<Rightarrow> int" where
  "round_half_even x =
     (let f = \<lfloor>x\<rfloor>; d = x - of_int f
      in if d < 1 / 2 then f else if 1 / 2 < d then f + 1 else if even f then f else f + 1)"

definition round2 :: "real \<Rightarrow> real" where
  "round2 x = of_int (round_half_even (x * 100)) / 100"

section \<open>The position ledger: \<^verbatim>\<open>fetch_user_trades_with_prices\<close>\<close>

text \<open>
  The values the loop body reads from one item (lines 67 to 71): \<^verbatim>\<open>size\<close>,
  \<^verbatim>\<open>price\<close>, the upper-cased \<^verbatim>\<open>side\<close>, \<^verbatim>\<open>market_id\<close> and \<^verbatim>\<open>outcome\<close>.
  The variable \<^verbatim>\<open>size\<close> is \<open>size_val\<close> here, \<open>size\<close> being a constant of HOL.
\<close>

record trade =
  size_val :: real
  price :: real
  side :: string
  market_id :: json
  outcome :: json

text \<open>
  An item that is not a dict has no \<^verbatim>\<open>get\<close> (\<^verbatim>\<open>AttributeError\<close>); then
  \<^verbatim>\<open>float(item.get("size", 0) or 0)\<close>, the same for \<^verbatim>\<open>price\<close>,
  \<^verbatim>\<open>item.get("side", "").upper()\<close>,
  \<^verbatim>\<open>item.get("market") or item.get("marketId", "")\<close> and \<^verbatim>\<open>item.get("outcome", "")\<close>,
  in this order.
\<close>

definition get_trade :: "json \<Rightarrow> error + trade" where
  "get_trade item =
     (case item of
        JObj kvs \<Rightarrow>
          (case float_field kvs ''size'' of
             Inl e \<Rightarrow> Inl e
           | Inr sz \<Rightarrow>
               (case float_field kvs ''price'' of
                  Inl e \<Rightarrow> Inl e
                | Inr pr \<Rightarrow>
                    (case py_upper (dict_get kvs ''side'' (JStr [])) of
                       Inl e \<Rightarrow> Inl e
                     | Inr sd \<Rightarrow>
                         Inr \<lparr>size_val = sz, price = pr, side = sd,
                              market_id = py_or (dict_get kvs ''market'' JNull)
                                                (dict_get kvs ''marketId'' (JStr [])),
                              outcome = dict_get kvs ''outcome'' (JStr [])\<rparr>)))
      | _ \<Rightarrow> Inl AttributeError)"

text \<open>A value of the \<^verbatim>\<open>positions\<close> dict: \<^verbatim>\<open>{"shares": X, "cost_basis": Y}\<close>.\<close>

record position =
  shares :: real
  cost_basis :: real

text \<open>The local variables the loop updates (lines 55 to 63).\<close>

record ledger =
  total_dollar_volume :: real
  trade_count :: nat
  positions :: "pkey \<rightharpoonup> position"
  realized_pnl :: real
  winning_trades :: nat
  losing_trades :: nat

definition init_ledger :: ledger where
  "init_ledger =
     \<lparr>total_dollar_volume = 0, trade_count = 0, positions = Map.empty,
      realized_pnl = 0, winning_trades = 0, losing_trades = 0\<rparr>"

definition trade_key :: "trade \<Rightarrow> error + pkey" where
  "trade_key t = position_key (market_id t) (outcome t)"

text \<open>Lines 86 and 87, after line 84 has made a missing entry.\<close>

definition buy :: "ledger \<Rightarrow> pkey \<Rightarrow> real \<Rightarrow> real \<Rightarrow> ledger" where
  "buy s k sz dollar_amount =
     (let p = (case positions s k of None \<Rightarrow> \<lparr>shares = 0, cost_basis = 0\<rparr> | Some p \<Rightarrow> p)
      in s\<lparr>positions := (positions s)(k \<mapsto>
             \<lparr>shares = shares p + sz, cost_basis = cost_basis p + dollar_amount\<rparr>)\<rparr>)"

text \<open>Lines 93 to 114, for the entry \<open>p\<close> found under the key, whose shares are positive.\<close>

definition sell :: "ledger \<Rightarrow> pkey \<Rightarrow> position \<Rightarrow> real \<Rightarrow> real \<Rightarrow> ledger" where
  "sell s k p sz dollar_amount =
     (let avg_cost = cost_basis p / shares p;
          sell_proceeds = dollar_amount;
          cost_of_shares_sold = avg_cost * sz;
          trade_pnl = sell_proceeds - cost_of_shares_sold;
          s1 = s\<lparr>realized_pnl := realized_pnl s + trade_pnl,
                 winning_trades := (if 0 < trade_pnl then winning_trades s + 1 else winning_trades s),
                 losing_trades := (if 0 < trade_pnl then losing_trades s
                                   else if trade_pnl < 0 then losing_trades s + 1
                                   else losing_trades s)\<rparr>;
          remaining = shares p - sz
      in if 0 < remaining
         then s1\<lparr>positions := (positions s1)(k \<mapsto> \<lparr>shares = remaining, cost_basis = avg_cost * remaining\<rparr>)\<rparr>
         else s1\<lparr>positions := (positions s1)(k := None)\<rparr>)"

text \<open>
  Lines 74 to 114 for one trade. The key is hashed only by the membership tests of the
  \<^verbatim>\<open>BUY\<close> and \<^verbatim>\<open>SELL\<close> branches, after volume and count are updated.
\<close>

definition apply_trade :: "ledger \<Rightarrow> trade \<Rightarrow> error + ledger" where
  "apply_trade s t =
     (let dollar_amount = size_val t * price t;
          s1 = s\<lparr>total_dollar_volume := total_dollar_volume s + dollar_amount,
                 trade_count := trade_count s + 1\<rparr>
      in if side t = ''BUY'' then
           (case trade_key t of
              Inl e \<Rightarrow> Inl e
            | Inr k \<Rightarrow> Inr (buy s1 k (size_val t) dollar_amount))
         else if side t = ''SELL'' then
           (case trade_key t of
              Inl e \<Rightarrow> Inl e
            | Inr k \<Rightarrow>
                (case positions s1 k of
                   None \<Rightarrow> Inr s1
                 | Some p \<Rightarrow> if 0 < shares p then Inr (sell s1 k p (size_val t) dollar_amount)
                             else Inr s1))
         else Inr s1)"

definition ledger_step :: "ledger \<Rightarrow> json \<Rightarrow> error + ledger" where
  "ledger_step s item =
     (case get_trade item of Inl e \<Rightarrow> Inl e | Inr t \<Rightarrow> apply_trade s t)"

text \<open>The \<^verbatim>\<open>for\<close> loop: the first exception ends it.\<close>

fun ledger_loop :: "ledger \<Rightarrow> json list \<Rightarrow> error + ledger" where
  "ledger_loop s [] = Inr s"
| "ledger_loop s (item # items) =
     (case ledger_step s item of Inl e \<Rightarrow> Inl e | Inr s' \<Rightarrow> ledger_loop s' items)"

text \<open>The metrics dict (lines 116 to 130).\<close>

record metrics =
  m_total_dollar_volume :: real
  m_avg_trade_dollars :: real
  m_realized_pnl :: real
  m_win_rate :: real
  m_winning_trades :: nat
  m_losing_trades :: nat
  m_total_trades :: nat

definition zero_metrics :: metrics where
  "zero_metrics =
     \<lparr>m_total_dollar_volume = 0, m_avg_trade_dollars = 0, m_realized_pnl = 0, m_win_rate = 0,
      m_winning_trades = 0, m_losing_trades = 0, m_total_trades = 0\<rparr>"

definition win_rate_of :: "nat \<Rightarrow> nat \<Rightarrow> real" where
  "win_rate_of w l =
     (let total_closed_trades = w + l
      in if 0 < total_closed_trades then real w / real total_closed_trades * 100 else 0)"

definition metrics_of :: "ledger \<Rightarrow> metrics" where
  "metrics_of s =
     (let avg_trade_dollars =
            (if 0 < trade_count s then total_dollar_volume s / real (trade_count s) else 0);
          win_rate = win_rate_of (winning_trades s) (losing_trades s)
      in \<lparr>m_total_dollar_volume = round2 (total_dollar_volume s),
          m_avg_trade_dollars = round2 avg_trade_dollars,
          m_realized_pnl = round2 (realized_pnl s),
          m_win_rate = round2 win_rate,
          m_winning_trades = winning_trades s,
          m_losing_trades = losing_trades s,
          m_total_trades = trade_count s\<rparr>)"

text \<open>
  What the HTTP request gives: \<open>Failed\<close> when \<^verbatim>\<open>client.get\<close>,
  \<^verbatim>\<open>raise_for_status\<close> or \<^verbatim>\<open>response.json()\<close> raises, the decoded body otherwise.
\<close>

datatype response = Failed | Body json

text \<open>
  What the function returns: the pair of line 132 and of the handler (line 136), or the
  dict alone of line 45.
\<close>

datatype trades_result =
    Pair_result metrics "pkey \<rightharpoonup> position"
  | Dict_result metrics

definition fetch_user_trades_with_prices :: "response \<Rightarrow> trades_result" where
  "fetch_user_trades_with_prices resp =
     (case resp of
        Failed \<Rightarrow> Pair_result zero_metrics Map.empty
      | Body data \<Rightarrow>
          (case items_of data of
             Inl e \<Rightarrow> Pair_result zero_metrics Map.empty
           | Inr items \<Rightarrow>
               if \<not> truthy items then Dict_result zero_metrics
               else (case py_iter items of
                       Inl e \<Rightarrow> Pair_result zero_metrics Map.empty
                     | Inr xs \<Rightarrow>
                         (case ledger_loop init_ledger xs of
                            Inl e \<Rightarrow> Pair_result zero_metrics Map.empty
                          | Inr s \<Rightarrow> Pair_result (metrics_of s) (positions s)))))"

section \<open>The reconciler: \<^verbatim>\<open>fetch_user_positions_dollars\<close>\<close>

text \<open>What the loop body reads from one live position record (lines 181 to 192).\<close>

record live =
  live_size :: real
  current_price :: real
  live_market_id :: json
  live_outcome :: json

text \<open>Line 181: \<^verbatim>\<open>float(item.get("size", 0) or item.get("tokens", 0) or 0)\<close>.\<close>

definition position_size :: "(string \<times> json) list \<Rightarrow> error + real" where
  "position_size kvs =
     py_float (py_or (dict_get kvs ''size'' (JNum 0))
                 (py_or (dict_get kvs ''tokens'' (JNum 0)) (JNum 0)))"

definition get_live :: "json \<Rightarrow> error + live" where
  "get_live item =
     (case item of
        JObj kvs \<Rightarrow>
          (case position_size kvs of
             Inl e \<Rightarrow> Inl e
           | Inr sz \<Rightarrow>
               (case float_field kvs ''price'' of
                  Inl e \<Rightarrow> Inl e
                | Inr pr \<Rightarrow>
                    Inr \<lparr>live_size = sz, current_price = pr,
                         live_market_id = py_or (dict_get kvs ''market'' JNull)
                                                (dict_get kvs ''marketId'' (JStr [])),
                         live_outcome = dict_get kvs ''outcome'' (JStr [])\<rparr>))
      | _ \<Rightarrow> Inl AttributeError)"

record marks =
  position_value_dollars :: real
  unrealized_pnl :: real

definition init_marks :: marks where
  "init_marks = \<lparr>position_value_dollars = 0, unrealized_pnl = 0\<rparr>"

text \<open>Lines 187 to 198 for one record, against the open positions of the trade history.\<close>

definition apply_live :: "(pkey \<rightharpoonup> position) \<Rightarrow> marks \<Rightarrow> live \<Rightarrow> error + marks" where
  "apply_live open_positions a r =
     (let current_value = live_size r * current_price r;
          a1 = a\<lparr>position_value_dollars := position_value_dollars a + current_value\<rparr>
      in case position_key (live_market_id r) (live_outcome r) of
           Inl e \<Rightarrow> Inl e
         | Inr k \<Rightarrow>
             (case open_positions k of
                None \<Rightarrow> Inr a1
              | Some p \<Rightarrow>
                  if 0 < shares p then
                    (let avg_cost = cost_basis p / shares p;
                         initial_cost = live_size r * avg_cost
                     in Inr (a1\<lparr>unrealized_pnl := unrealized_pnl a1 + (current_value - initial_cost)\<rparr>))
                  else Inr a1))"

definition marks_step :: "(pkey \<rightharpoonup> position) \<Rightarrow> marks \<Rightarrow> json \<Rightarrow> error + marks" where
  "marks_step open_positions a item =
     (case get_live item of Inl e \<Rightarrow> Inl e | Inr r \<Rightarrow> apply_live open_positions a r)"

fun marks_loop :: "(pkey \<rightharpoonup> position) \<Rightarrow> marks \<Rightarrow> json list \<Rightarrow> error + marks" where
  "marks_loop open_positions a [] = Inr a"
| "marks_loop open_positions a (item # items) =
     (case marks_step open_positions a item of
        Inl e \<Rightarrow> Inl e
      | Inr a' \<Rightarrow> marks_loop open_positions a' items)"

definition rounded_marks :: "marks \<Rightarrow> marks" where
  "rounded_marks a =
     \<lparr>position_value_dollars = round2 (position_value_dollars a),
      unrealized_pnl = round2 (unrealized_pnl a)\<rparr>"

definition fetch_user_positions_dollars :: "response \<Rightarrow> (pkey \<rightharpoonup> position) \<Rightarrow> marks" where
  "fetch_user_positions_dollars resp open_positions =
     (case resp of
        Failed \<Rightarrow> init_marks
      | Body data \<Rightarrow>
          (case items_of data of
             Inl e \<Rightarrow> init_marks
           | Inr items \<Rightarrow>
               (case py_iter items of
                  Inl e \<Rightarrow> init_marks
                | Inr xs \<Rightarrow>
                    (case marks_loop open_positions init_marks xs of
                       Inl e \<Rightarrow> init_marks
                     | Inr a \<Rightarrow> rounded_marks a))))"

section \<open>One wallet and the batch: \<^verbatim>\<open>enhance_user\<close> and \<^verbatim>\<open>main\<close>\<close>

text \<open>The nine fields \<^verbatim>\<open>enhance_user\<close> adds to the wallet's row.\<close>

record profile =
  p_total_dollar_volume :: real
  p_avg_trade_dollars :: real
  p_realized_pnl :: real
  p_unrealized_pnl :: real
  p_total_pnl :: real
  p_win_rate_percent :: real
  p_winning_trades :: nat
  p_losing_trades :: nat
  p_position_value_dollars :: real

text \<open>
  \<^verbatim>\<open>trade_metrics, open_positions = await fetch_user_trades_with_prices(wallet)\<close>
  unpacks the returned value into two names. The pair unpacks; the dict of line 45
  iterates as its seven keys, and the assignment raises \<^verbatim>\<open>ValueError\<close> (too many
  values to unpack). Nothing in \<^verbatim>\<open>enhance_user\<close> catches it.
\<close>

definition unpack2 :: "trades_result \<Rightarrow> error + metrics \<times> (pkey \<rightharpoonup> position)" where
  "unpack2 r =
     (case r of
        Pair_result m ps \<Rightarrow> Inr (m, ps)
      | Dict_result m \<Rightarrow> Inl ValueError)"

text \<open>The two arguments are what the trades request and the positions request give.\<close>

definition enhance_user :: "response \<Rightarrow> response \<Rightarrow> error + profile" where
  "enhance_user trades_resp positions_resp =
     (case unpack2 (fetch_user_trades_with_prices trades_resp) of
        Inl e \<Rightarrow> Inl e
      | Inr (trade_metrics, open_positions) \<Rightarrow>
          (let position_metrics = fetch_user_positions_dollars positions_resp open_positions;
               total_pnl = m_realized_pnl trade_metrics + unrealized_pnl position_metrics
           in Inr \<lparr>p_total_dollar_volume = m_total_dollar_volume trade_metrics,
                   p_avg_trade_dollars = m_avg_trade_dollars trade_metrics,
                   p_realized_pnl = m_realized_pnl trade_metrics,
                   p_unrealized_pnl = unrealized_pnl position_metrics,
                   p_total_pnl = round2 total_pnl,
                   p_win_rate_percent = m_win_rate trade_metrics,
                   p_winning_trades = m_winning_trades trade_metrics,
                   p_losing_trades = m_losing_trades trade_metrics,
                   p_position_value_dollars = position_value_dollars position_metrics\<rparr>))"

text \<open>
  The loop of \<^verbatim>\<open>main\<close> over the wallets (lines 273 to 277) has no handler: an
  exception out of \<^verbatim>\<open>enhance_user\<close> ends the run before any row is written.
\<close>

fun enhance_all :: "(response \<times> response) list \<Rightarrow> error + profile list" where
  "enhance_all [] = Inr []"
| "enhance_all (u # users) =
     (case enhance_user (fst u) (snd u) of
        Inl e \<Rightarrow> Inl e
      | Inr enhanced \<Rightarrow>
          (case enhance_all users of Inl e \<Rightarrow> Inl e | Inr rest \<Rightarrow> Inr (enhanced # rest)))"

section \<open>Notions used to state the properties\<close>

text \<open>The entry under a key, or the fresh entry of line 84 when there is none.\<close>

definition entry :: "(pkey \<rightharpoonup> position) \<Rightarrow> pkey \<Rightarrow> position" where
  "entry m k = (case m k of None \<Rightarrow> \<lparr>shares = 0, cost_basis = 0\<rparr> | Some p \<Rightarrow> p)"

text \<open>The trades of a list whose market and outcome hash to the key \<open>k\<close>.\<close>

definition trades_on :: "pkey \<Rightarrow> trade list \<Rightarrow> trade list" where
  "trades_on k ts = filter (\<lambda>t. trade_key t = Inr k) ts"

definition live_key :: "live \<Rightarrow> error + pkey" where
  "live_key r = position_key (live_market_id r) (live_outcome r)"

text \<open>
  What one live record adds to the unrealized PnL, in the words of the specification:
  size times price minus size times average cost when its key has an open position with
  positive shares, nothing otherwise.
\<close>

definition paper_gain :: "(pkey \<rightharpoonup> position) \<Rightarrow> live \<Rightarrow> real" where
  "paper_gain open_positions r =
     (case live_key r of
        Inl e \<Rightarrow> 0
      | Inr k \<Rightarrow>
          (case open_positions k of
             None \<Rightarrow> 0
           | Some p \<Rightarrow>
               if 0 < shares p
               then live_size r * current_price r - live_size r * (cost_basis p / shares p)
               else 0))"

text \<open>The metrics a returned value carries, whichever shape it has.\<close>

fun result_metrics :: "trades_result \<Rightarrow> metrics" where
  "result_metrics (Pair_result m ps) = m"
| "result_metrics (Dict_result m) = m"

subsection \<open>Sample records\<close>

text \<open>
  A trade record and a live position record as the API sends them, on the outcome
  \<^verbatim>\<open>Yes\<close> of a market.
\<close>

definition trade_record :: "string \<Rightarrow> real \<Rightarrow> real \<Rightarrow> string \<Rightarrow> json" where
  "trade_record sd sz pr m =
     JObj [(''side'', JStr sd), (''size'', JNum sz), (''price'', JNum pr),
           (''market'', JStr m), (''outcome'', JStr ''Yes'')]"

definition live_record :: "real \<Rightarrow> real \<Rightarrow> string \<Rightarrow> json" where
  "live_record sz pr m =
     JObj [(''size'', JNum sz), (''price'', JNum pr),
           (''market'', JStr m), (''outcome'', JStr ''Yes'')]"

definition yes_key :: "string \<Rightarrow> pkey" where
  "yes_key m = (JStr m, JStr ''Yes'')"

definition a_trade :: "string \<Rightarrow> real \<Rightarrow> real \<Rightarrow> string \<Rightarrow> trade" where
  "a_trade sd sz pr m =
     \<lparr>size_val = sz, price = pr, side = sd, market_id = JStr m, outcome = JStr ''Yes''\<rparr>"

section \<open>Facts about the model\<close>

subsection \<open>Reading the sample records\<close>

lemma get_trade_record:
  "get_trade (trade_record ''BUY'' sz pr m) = Inr (a_trade ''BUY'' sz pr m)"
  "get_trade (trade_record ''SELL'' sz pr m) = Inr (a_trade ''SELL'' sz pr m)"
  by (simp_all add: trade_record_def a_trade_def get_trade_def float_field_def dict_get_def
        py_or_def upper_char_def)

lemma trade_key_a_trade: "trade_key (a_trade sd sz pr m) = Inr (yes_key m)"
  by (simp add: trade_key_def a_trade_def position_key_def yes_key_def)

lemma a_trade_sel:
  "size_val (a_trade sd sz pr m) = sz"
  "price (a_trade sd sz pr m) = pr"
  "side (a_trade sd sz pr m) = sd"
  by (simp_all add: a_trade_def)

lemma marks_step_record:
  "marks_step ops a (live_record sz pr m) =
     apply_live ops a
       \<lparr>live_size = sz, current_price = pr, live_market_id = JStr m, live_outcome = JStr ''Yes''\<rparr>"
  by (simp add: marks_step_def get_live_def live_record_def position_size_def float_field_def
        dict_get_def py_or_def)

lemma get_live_record:
  "get_live (live_record sz pr m) =
     Inr \<lparr>live_size = sz, current_price = pr, live_market_id = JStr m, live_outcome = JStr ''Yes''\<rparr>"
  by (simp add: get_live_def live_record_def position_size_def float_field_def
        dict_get_def py_or_def)

lemmas run_simps =
  fetch_user_trades_with_prices_def get_trade_record ledger_step_def apply_trade_def a_trade_sel
  trade_key_a_trade init_ledger_def buy_def sell_def Let_def yes_key_def metrics_of_def
  win_rate_of_def round2_def round_half_even_def

lemmas marks_simps =
  fetch_user_positions_dollars_def marks_step_record apply_live_def position_key_def
  init_marks_def rounded_marks_def

lemmas float_of_str_simps =
  float_of_str_def strip_def is_space_def split_sign_def is_digit_def digit_of_def
  exponent_of_def digits_val_def

lemma round2_zero: "round2 0 = 0"
  by (simp add: round2_def round_half_even_def)

subsection \<open>One step of the ledger\<close>

lemma apply_trade_buy:
  assumes "side t = ''BUY''" and "trade_key t = Inr k"
  shows "apply_trade s t =
           Inr (s\<lparr>total_dollar_volume := total_dollar_volume s + size_val t * price t,
                  trade_count := trade_count s + 1,
                  positions := (positions s)(k \<mapsto>
                     \<lparr>shares = shares (entry (positions s) k) + size_val t,
                      cost_basis = cost_basis (entry (positions s) k) + size_val t * price t\<rparr>)\<rparr>)"
  using assms by (simp add: apply_trade_def buy_def entry_def Let_def split: option.split)

lemma apply_trade_counts:
  assumes "apply_trade s t = Inr s'"
  shows "trade_count s' = trade_count s + 1 \<and>
         total_dollar_volume s' = total_dollar_volume s + size_val t * price t"
  using assms
  by (auto simp: apply_trade_def buy_def sell_def Let_def split: sum.splits option.splits if_splits)

lemma apply_trade_ok:
  assumes "trade_key t = Inr k"
  shows "\<exists>s'. apply_trade s t = Inr s'"
  using assms by (simp add: apply_trade_def Let_def split: option.splits)

lemma step_keeps_open:
  assumes inv: "\<forall>k p. positions s k = Some p \<longrightarrow> 0 < shares p"
    and pos: "\<forall>t. get_trade item = Inr t \<and> side t = ''BUY'' \<longrightarrow> 0 < size_val t"
    and step: "ledger_step s item = Inr s'"
  shows "\<forall>k p. positions s' k = Some p \<longrightarrow> 0 < shares p"
proof -
  from step obtain t where gt: "get_trade item = Inr t" and ap: "apply_trade s t = Inr s'"
    by (auto simp: ledger_step_def split: sum.splits)
  show ?thesis
  proof (cases "side t = ''BUY''")
    case True
    with pos gt have sz: "0 < size_val t" by blast
    from ap True obtain k where
      "s' = buy (s\<lparr>total_dollar_volume := total_dollar_volume s + size_val t * price t,
                   trade_count := trade_count s + 1\<rparr>) k (size_val t) (size_val t * price t)"
      by (auto simp: apply_trade_def Let_def split: sum.splits)
    then show ?thesis using inv sz
      by (auto simp: buy_def Let_def add_pos_pos split: option.splits if_splits)
  next
    case False
    then show ?thesis using ap inv
      by (auto simp: apply_trade_def sell_def Let_def split: sum.splits option.splits if_splits)
  qed
qed

subsection \<open>The loop\<close>

lemma loop_keeps_open:
  assumes "\<forall>k p. positions s k = Some p \<longrightarrow> 0 < shares p"
    and "\<forall>item\<in>set items. \<forall>t. get_trade item = Inr t \<and> side t = ''BUY'' \<longrightarrow> 0 < size_val t"
    and "ledger_loop s items = Inr s'"
  shows "\<forall>k p. positions s' k = Some p \<longrightarrow> 0 < shares p"
  using assms
proof (induction items arbitrary: s)
  case Nil
  then show ?case by simp
next
  case (Cons item items)
  from Cons.prems(3) obtain s1 where st: "ledger_step s item = Inr s1"
    and run: "ledger_loop s1 items = Inr s'"
    by (auto split: sum.splits)
  have here: "\<forall>t. get_trade item = Inr t \<and> side t = ''BUY'' \<longrightarrow> 0 < size_val t"
    and rest: "\<forall>item\<in>set items. \<forall>t. get_trade item = Inr t \<and> side t = ''BUY'' \<longrightarrow> 0 < size_val t"
    using Cons.prems(2) by simp_all
  have "\<forall>k p. positions s1 k = Some p \<longrightarrow> 0 < shares p"
    by (rule step_keeps_open[OF Cons.prems(1) here st])
  then show ?case by (rule Cons.IH[OF _ rest run])
qed

lemma loop_raises:
  assumes "item \<in> set items" and "get_trade item = Inl e"
  shows "\<exists>e'. ledger_loop s items = Inl e'"
  using assms
proof (induction items arbitrary: s)
  case Nil
  then show ?case by simp
next
  case (Cons x xs)
  show ?case
  proof (cases "ledger_step s x")
    case (Inl e1)
    then show ?thesis by simp
  next
    case (Inr s1)
    have "x \<noteq> item" using Inr Cons.prems(2) by (auto simp: ledger_step_def)
    with Cons.prems(1) have "item \<in> set xs" by simp
    from Cons.IH[OF this Cons.prems(2), of s1] Inr show ?thesis by simp
  qed
qed

lemma all_buy_loop:
  assumes "map get_trade items = map Inr ts"
    and "\<forall>t\<in>set ts. side t = ''BUY'' \<and> (\<exists>k. trade_key t = Inr k)"
  shows "\<exists>s'. ledger_loop s items = Inr s' \<and>
           realized_pnl s' = realized_pnl s \<and>
           winning_trades s' = winning_trades s \<and>
           losing_trades s' = losing_trades s \<and>
           (\<forall>k. positions s' k =
              (if trades_on k ts = [] then positions s k
               else Some \<lparr>shares = shares (entry (positions s) k)
                            + sum_list (map size_val (trades_on k ts)),
                          cost_basis = cost_basis (entry (positions s) k)
                            + sum_list (map (\<lambda>t. size_val t * price t) (trades_on k ts))\<rparr>))"
  using assms
proof (induction items arbitrary: ts s)
  case Nil
  then show ?case by (simp add: trades_on_def)
next
  case (Cons item items)
  then obtain t ts' where ts: "ts = t # ts'" and gt: "get_trade item = Inr t"
    and rest: "map get_trade items = map Inr ts'"
    by (cases ts) auto
  from Cons.prems(2) ts obtain k where sd: "side t = ''BUY''" and k: "trade_key t = Inr k"
    and all': "\<forall>t\<in>set ts'. side t = ''BUY'' \<and> (\<exists>k. trade_key t = Inr k)"
    by auto
  define s1 where
    "s1 = s\<lparr>total_dollar_volume := total_dollar_volume s + size_val t * price t,
            trade_count := trade_count s + 1,
            positions := (positions s)(k \<mapsto>
               \<lparr>shares = shares (entry (positions s) k) + size_val t,
                cost_basis = cost_basis (entry (positions s) k) + size_val t * price t\<rparr>)\<rparr>"
  have step: "ledger_step s item = Inr s1"
    using gt apply_trade_buy[OF sd k] by (simp add: ledger_step_def s1_def)
  from Cons.IH[OF rest all', of s1] obtain s' where
    run: "ledger_loop s1 items = Inr s'" and
    r: "realized_pnl s' = realized_pnl s1" "winning_trades s' = winning_trades s1"
       "losing_trades s' = losing_trades s1" and
    p: "\<forall>k. positions s' k =
              (if trades_on k ts' = [] then positions s1 k
               else Some \<lparr>shares = shares (entry (positions s1) k)
                            + sum_list (map size_val (trades_on k ts')),
                          cost_basis = cost_basis (entry (positions s1) k)
                            + sum_list (map (\<lambda>t. size_val t * price t) (trades_on k ts'))\<rparr>)"
    by blast
  have "ledger_loop s (item # items) = Inr s'" using step run by simp
  moreover have "realized_pnl s' = realized_pnl s" "winning_trades s' = winning_trades s"
    "losing_trades s' = losing_trades s" using r by (simp_all add: s1_def)
  moreover have "\<forall>k'. positions s' k' =
              (if trades_on k' ts = [] then positions s k'
               else Some \<lparr>shares = shares (entry (positions s) k')
                            + sum_list (map size_val (trades_on k' ts)),
                          cost_basis = cost_basis (entry (positions s) k')
                            + sum_list (map (\<lambda>t. size_val t * price t) (trades_on k' ts))\<rparr>)"
  proof
    fix k'
    show "positions s' k' =
              (if trades_on k' ts = [] then positions s k'
               else Some \<lparr>shares = shares (entry (positions s) k')
                            + sum_list (map size_val (trades_on k' ts)),
                          cost_basis = cost_basis (entry (positions s) k')
                            + sum_list (map (\<lambda>t. size_val t * price t) (trades_on k' ts))\<rparr>)"
    proof (cases "k' = k")
      case True
      then show ?thesis using p[rule_format, of k'] k
        by (simp add: ts trades_on_def s1_def entry_def)
    next
      case False
      then show ?thesis using p[rule_format, of k'] k
        by (simp add: ts trades_on_def s1_def entry_def)
    qed
  qed
  ultimately show ?case by blast
qed

subsection \<open>Raising records\<close>

lemma falsy_field_zero:
  "\<not> truthy (dict_get kvs k (JNum 0)) \<Longrightarrow> float_field kvs k = Inr 0"
  by (simp add: float_field_def py_or_def)

lemma get_trade_size_raises:
  "float_field kvs ''size'' = Inl e \<Longrightarrow> get_trade (JObj kvs) = Inl e"
  by (simp add: get_trade_def)

lemma get_trade_price_raises:
  "float_field kvs ''price'' = Inl e \<Longrightarrow> \<exists>e'. get_trade (JObj kvs) = Inl e'"
  by (simp add: get_trade_def split: sum.splits)

lemma get_trade_fields:
  assumes "get_trade (JObj kvs) = Inr t"
  shows "float_field kvs ''size'' = Inr (size_val t)" and "float_field kvs ''price'' = Inr (price t)"
  using assms by (auto simp: get_trade_def split: sum.splits)

lemma wallet_zeroed:
  assumes "JObj kvs \<in> set items"
    and "float_field kvs ''size'' = Inl e \<or> float_field kvs ''price'' = Inl e"
  shows "fetch_user_trades_with_prices (Body (JList items)) = Pair_result zero_metrics Map.empty"
proof -
  from assms(2) obtain e' where "get_trade (JObj kvs) = Inl e'"
    using get_trade_size_raises get_trade_price_raises by blast
  from loop_raises[OF assms(1) this] obtain e2 where "ledger_loop init_ledger items = Inl e2"
    by blast
  moreover have "items \<noteq> []" using assms(1) by auto
  ultimately show ?thesis
    by (simp add: fetch_user_trades_with_prices_def)
qed

subsection \<open>The batch\<close>

lemma abort_all:
  assumes "enhance_user (fst u) (snd u) = Inl e"
  shows "\<exists>e'. enhance_all (users @ u # rest) = Inl e'"
proof (induction users)
  case Nil
  then show ?case using assms by simp
next
  case (Cons v users)
  then show ?case by (auto split: sum.splits)
qed

section \<open>The claims\<close>

subsection \<open>C1: a matched sell\<close>

text \<open>
  C1. A \<^verbatim>\<open>SELL\<close> whose key has an open position with positive shares adds
  \<open>size * price - (cost_basis / shares) * size\<close> to the realized PnL and takes \<open>size\<close>
  from the shares. If shares remain, the entry keeps them with the cost basis recomputed
  as the old average cost times the remaining shares, so the average cost is the same as
  before; otherwise the entry is removed. No other key is touched.
\<close>

theorem sell_realizes_and_reduces:
  assumes "get_trade item = Inr t" and "side t = ''SELL''" and "trade_key t = Inr k"
    and "positions s k = Some p" and "0 < shares p"
  shows "\<exists>s'. ledger_step s item = Inr s' \<and>
           realized_pnl s' =
             realized_pnl s + (size_val t * price t - cost_basis p / shares p * size_val t) \<and>
           (if 0 < shares p - size_val t
            then positions s' k =
                   Some \<lparr>shares = shares p - size_val t,
                         cost_basis = cost_basis p / shares p * (shares p - size_val t)\<rparr> \<and>
                 cost_basis p / shares p * (shares p - size_val t) / (shares p - size_val t) =
                   cost_basis p / shares p
            else positions s' k = None) \<and>
           (\<forall>k'. k' \<noteq> k \<longrightarrow> positions s' k' = positions s k')"
proof -
  have "ledger_step s item =
          Inr (sell (s\<lparr>total_dollar_volume := total_dollar_volume s + size_val t * price t,
                        trade_count := trade_count s + 1\<rparr>)
                 k p (size_val t) (size_val t * price t))"
    using assms by (simp add: ledger_step_def apply_trade_def Let_def)
  then show ?thesis
    by (simp add: sell_def Let_def)
qed

text \<open>
  The worked example of the specification: holding 20 shares bought for 30 dollars,
  selling 5 at 3 dollars realizes 7.50 and leaves 15 shares with a cost basis of 22.50.
\<close>

theorem sell_realizes_and_reduces_witness:
  "\<exists>s'. ledger_step
           \<lparr>total_dollar_volume = 30, trade_count = 2,
            positions = [yes_key ''m'' \<mapsto> \<lparr>shares = 20, cost_basis = 30\<rparr>],
            realized_pnl = 0, winning_trades = 0, losing_trades = 0\<rparr>
           (trade_record ''SELL'' 5 3 ''m'') = Inr s' \<and>
         realized_pnl s' = 15 / 2 \<and>
         positions s' (yes_key ''m'') = Some \<lparr>shares = 15, cost_basis = 45 / 2\<rparr>"
proof -
  let ?s = "\<lparr>total_dollar_volume = 30, trade_count = 2,
            positions = [yes_key ''m'' \<mapsto> \<lparr>shares = 20, cost_basis = 30\<rparr>],
            realized_pnl = 0, winning_trades = 0, losing_trades = 0\<rparr>"
  let ?p = "\<lparr>shares = 20, cost_basis = 30\<rparr>"
  let ?t = "a_trade ''SELL'' 5 3 ''m''"
  have h1: "get_trade (trade_record ''SELL'' 5 3 ''m'') = Inr ?t" by (simp add: get_trade_record)
  have h2: "side ?t = ''SELL''" by (simp add: a_trade_sel)
  have h3: "trade_key ?t = Inr (yes_key ''m'')" by (simp add: trade_key_a_trade)
  have h4: "positions ?s (yes_key ''m'') = Some ?p" by simp
  have h5: "0 < shares ?p" by simp
  from sell_realizes_and_reduces[OF h1 h2 h3 h4 h5] obtain s' where
    "ledger_step ?s (trade_record ''SELL'' 5 3 ''m'') = Inr s'"
    "realized_pnl s' = 15 / 2"
    "positions s' (yes_key ''m'') = Some \<lparr>shares = 15, cost_basis = 45 / 2\<rparr>"
    by (auto simp: a_trade_sel)
  then show ?thesis by blast
qed

subsection \<open>C2: only buys\<close>

text \<open>
  C2. When every item of the list reads as a \<^verbatim>\<open>BUY\<close> trade with a hashable key, the
  loop ends with realized PnL 0, no winning and no losing trade, and for each key the
  position holds the sum of the sizes bought on that key as shares and the sum of their
  \<open>size * price\<close> as cost basis; a key no trade is on has no entry.
\<close>

theorem all_buy_invariant:
  assumes "map get_trade items = map Inr ts"
    and "\<forall>t\<in>set ts. side t = ''BUY'' \<and> (\<exists>k. trade_key t = Inr k)"
  shows "\<exists>s. ledger_loop init_ledger items = Inr s \<and>
           realized_pnl s = 0 \<and> winning_trades s = 0 \<and> losing_trades s = 0 \<and>
           (\<forall>k. positions s k =
              (if trades_on k ts = [] then None
               else Some \<lparr>shares = sum_list (map size_val (trades_on k ts)),
                          cost_basis = sum_list (map (\<lambda>t. size_val t * price t) (trades_on k ts))\<rparr>))"
proof -
  from all_buy_loop[OF assms, of init_ledger] obtain s where
    "ledger_loop init_ledger items = Inr s"
    "realized_pnl s = realized_pnl init_ledger"
    "winning_trades s = winning_trades init_ledger"
    "losing_trades s = losing_trades init_ledger"
    "\<forall>k. positions s k =
       (if trades_on k ts = [] then positions init_ledger k
        else Some \<lparr>shares = shares (entry (positions init_ledger) k)
                     + sum_list (map size_val (trades_on k ts)),
                   cost_basis = cost_basis (entry (positions init_ledger) k)
                     + sum_list (map (\<lambda>t. size_val t * price t) (trades_on k ts))\<rparr>)"
    by blast
  then show ?thesis
    by (simp add: init_ledger_def entry_def)
qed

text \<open>Buying 10 at 1 dollar and 10 at 2 dollars gives 20 shares for 30 dollars.\<close>

theorem all_buy_invariant_witness:
  "\<exists>s. ledger_loop init_ledger
          [trade_record ''BUY'' 10 1 ''m'', trade_record ''BUY'' 10 2 ''m''] = Inr s \<and>
        realized_pnl s = 0 \<and> winning_trades s = 0 \<and> losing_trades s = 0 \<and>
        positions s (yes_key ''m'') = Some \<lparr>shares = 20, cost_basis = 30\<rparr> \<and>
        positions s (yes_key ''other'') = None"
proof -
  let ?ts = "[a_trade ''BUY'' 10 1 ''m'', a_trade ''BUY'' 10 2 ''m'']"
  have h1: "map get_trade [trade_record ''BUY'' 10 1 ''m'', trade_record ''BUY'' 10 2 ''m'']
              = map Inr ?ts"
    by (simp add: get_trade_record)
  have h2: "\<forall>t\<in>set ?ts. side t = ''BUY'' \<and> (\<exists>k. trade_key t = Inr k)"
    by (simp add: a_trade_sel trade_key_a_trade)
  from all_buy_invariant[OF h1 h2] obtain s where
    run: "ledger_loop init_ledger
            [trade_record ''BUY'' 10 1 ''m'', trade_record ''BUY'' 10 2 ''m''] = Inr s"
    and r: "realized_pnl s = 0" "winning_trades s = 0" "losing_trades s = 0"
    and p: "\<forall>k. positions s k =
              (if trades_on k ?ts = [] then None
               else Some \<lparr>shares = sum_list (map size_val (trades_on k ?ts)),
                          cost_basis = sum_list (map (\<lambda>t. size_val t * price t) (trades_on k ?ts))\<rparr>)"
    by blast
  have "positions s (yes_key ''m'') = Some \<lparr>shares = 20, cost_basis = 30\<rparr>"
    using p[rule_format, of "yes_key ''m''"]
    by (simp add: trades_on_def trade_key_a_trade a_trade_sel)
  moreover have "positions s (yes_key ''other'') = None"
    using p[rule_format, of "yes_key ''other''"]
    by (simp add: trades_on_def trade_key_a_trade yes_key_def)
  ultimately show ?thesis using run r by blast
qed

subsection \<open>C3: entries of the open-position map\<close>

text \<open>
  C3 as stated fails: a \<^verbatim>\<open>BUY\<close> of size 0 on a key with no position leaves an entry
  with 0 shares in the map (lines 83 to 87 add the size to a fresh entry and never
  remove it).
\<close>

theorem zero_buy_counterexample:
  "ledger_loop init_ledger [trade_record ''BUY'' 0 (1 / 2) ''m''] =
     Inr \<lparr>total_dollar_volume = 0, trade_count = 1,
          positions = [yes_key ''m'' \<mapsto> \<lparr>shares = 0, cost_basis = 0\<rparr>],
          realized_pnl = 0, winning_trades = 0, losing_trades = 0\<rparr>"
  by (simp add: run_simps)

text \<open>
  C3, amended. When every \<^verbatim>\<open>BUY\<close> of the list has a positive size, every entry of the
  map has positive shares after each trade, that is after every prefix of the list the
  loop gets through: a sell that leaves no positive shares removes the entry.
\<close>

theorem open_positions_positive:
  assumes "\<forall>item\<in>set items. \<forall>t. get_trade item = Inr t \<and> side t = ''BUY'' \<longrightarrow> 0 < size_val t"
    and "ledger_loop init_ledger (take n items) = Inr s"
    and "positions s k = Some p"
  shows "0 < shares p"
proof -
  have sub: "\<forall>item\<in>set (take n items).
               \<forall>t. get_trade item = Inr t \<and> side t = ''BUY'' \<longrightarrow> 0 < size_val t"
    using assms(1) by (meson in_set_takeD)
  have inv0: "\<forall>k p. positions init_ledger k = Some p \<longrightarrow> 0 < shares p"
    by (simp add: init_ledger_def)
  have "\<forall>k p. positions s k = Some p \<longrightarrow> 0 < shares p"
    by (rule loop_keeps_open[OF inv0 sub assms(2)])
  with assms(3) show ?thesis by blast
qed

text \<open>Buy 10, sell them all, buy 5: after the third trade the entry holds 5 shares.\<close>

theorem open_positions_positive_witness:
  "ledger_loop init_ledger
     (take 3 [trade_record ''BUY'' 10 1 ''m'', trade_record ''SELL'' 10 2 ''m'',
              trade_record ''BUY'' 5 1 ''m'']) =
     Inr \<lparr>total_dollar_volume = 35, trade_count = 3,
          positions = [yes_key ''m'' \<mapsto> \<lparr>shares = 5, cost_basis = 5\<rparr>],
          realized_pnl = 10, winning_trades = 1, losing_trades = 0\<rparr> \<and>
   0 < shares \<lparr>shares = 5, cost_basis = 5\<rparr>"
proof -
  let ?items = "[trade_record ''BUY'' 10 1 ''m'', trade_record ''SELL'' 10 2 ''m'',
                 trade_record ''BUY'' 5 1 ''m'']"
  let ?s = "\<lparr>total_dollar_volume = 35, trade_count = 3,
          positions = [yes_key ''m'' \<mapsto> \<lparr>shares = 5, cost_basis = 5::real\<rparr>],
          realized_pnl = 10, winning_trades = 1, losing_trades = 0\<rparr>"
  have h1: "\<forall>item\<in>set ?items. \<forall>t. get_trade item = Inr t \<and> side t = ''BUY'' \<longrightarrow> 0 < size_val t"
    by (auto simp: get_trade_record a_trade_sel)
  have h2: "ledger_loop init_ledger (take 3 ?items) = Inr ?s"
    by (simp add: run_simps)
  have h3: "positions ?s (yes_key ''m'') = Some \<lparr>shares = 5, cost_basis = 5\<rparr>"
    by simp
  from open_positions_positive[OF h1 h2 h3] h2 show ?thesis
    by simp
qed

subsection \<open>C4: a wallet with no trades\<close>

text \<open>
  C4. When the request fails the function returns all-zero metrics with an empty position
  map, as the claim says. When the request succeeds with an empty list, line 45 returns
  the metrics dict alone, against the declared \<^verbatim>\<open>tuple[dict, dict]\<close> and the handler of
  line 136: the unpacking in \<^verbatim>\<open>enhance_user\<close> raises \<^verbatim>\<open>ValueError\<close>, and the loop
  of \<^verbatim>\<open>main\<close> over the wallets ends with it, whatever wallets come before or after.
\<close>

theorem empty_trade_list_aborts_batch:
  "fetch_user_trades_with_prices Failed = Pair_result zero_metrics Map.empty \<and>
   fetch_user_trades_with_prices (Body (JList [])) = Dict_result zero_metrics \<and>
   enhance_user (Body (JList [])) positions_resp = Inl ValueError \<and>
   (\<exists>e. enhance_all (users @ (Body (JList []), positions_resp) # rest) = Inl e)"
proof -
  have r: "enhance_user (Body (JList [])) positions_resp = Inl ValueError"
    by (simp add: enhance_user_def unpack2_def fetch_user_trades_with_prices_def)
  then have "\<exists>e. enhance_all (users @ (Body (JList []), positions_resp) # rest) = Inl e"
    using abort_all[of "(Body (JList []), positions_resp)" ValueError users rest] by simp
  with r show ?thesis
    by (simp add: fetch_user_trades_with_prices_def)
qed

subsection \<open>C5: an unmatched sell\<close>

text \<open>
  C5. A \<^verbatim>\<open>SELL\<close> whose key has no entry, or an entry without positive shares, changes
  the ledger in two places only: \<open>size * price\<close> is added to the dollar volume and the
  trade count goes up by one. Realized PnL, the winning and losing counts and the
  positions stay as they are.
\<close>

theorem unmatched_sell_counts_volume_only:
  assumes "get_trade item = Inr t" and "side t = ''SELL''" and "trade_key t = Inr k"
    and "positions s k = None \<or> (\<exists>p. positions s k = Some p \<and> shares p \<le> 0)"
  shows "ledger_step s item =
           Inr (s\<lparr>total_dollar_volume := total_dollar_volume s + size_val t * price t,
                  trade_count := trade_count s + 1\<rparr>)"
  using assms by (auto simp: ledger_step_def apply_trade_def Let_def)

text \<open>Selling 4 at 0.50 with nothing bought before.\<close>

theorem unmatched_sell_counts_volume_only_witness:
  "ledger_step init_ledger (trade_record ''SELL'' 4 (1 / 2) ''m'') =
     Inr \<lparr>total_dollar_volume = 2, trade_count = 1, positions = Map.empty,
          realized_pnl = 0, winning_trades = 0, losing_trades = 0\<rparr>"
proof -
  let ?t = "a_trade ''SELL'' 4 (1 / 2) ''m''"
  have h1: "get_trade (trade_record ''SELL'' 4 (1 / 2) ''m'') = Inr ?t"
    by (simp add: get_trade_record)
  have h2: "side ?t = ''SELL''" by (simp add: a_trade_sel)
  have h3: "trade_key ?t = Inr (yes_key ''m'')" by (simp add: trade_key_a_trade)
  have h4: "positions init_ledger (yes_key ''m'') = None \<or>
            (\<exists>p. positions init_ledger (yes_key ''m'') = Some p \<and> shares p \<le> 0)"
    by (simp add: init_ledger_def)
  from unmatched_sell_counts_volume_only[OF h1 h2 h3 h4] show ?thesis
    by (simp add: init_ledger_def a_trade_sel)
qed

subsection \<open>C6: the reconciliation\<close>

text \<open>
  C6. Over live records that read without raising and have hashable keys, the loop adds
  every record's \<open>size * price\<close> to the position value, and adds to the unrealized PnL
  \<open>size * price - size * (cost_basis / shares)\<close> for the records whose key has an open
  position with positive shares, with the size the record reports; the other records add
  nothing to it.
\<close>

theorem reconciliation_sums:
  assumes "map get_live items = map Inr rs"
    and "\<forall>r\<in>set rs. \<exists>k. live_key r = Inr k"
  shows "marks_loop open_positions a items =
           Inr \<lparr>position_value_dollars =
                  position_value_dollars a
                    + sum_list (map (\<lambda>r. live_size r * current_price r) rs),
                unrealized_pnl =
                  unrealized_pnl a + sum_list (map (paper_gain open_positions) rs)\<rparr>"
  using assms
proof (induction items arbitrary: rs a)
  case Nil
  then show ?case by simp
next
  case (Cons item items)
  then obtain r rs' where rs: "rs = r # rs'" and gl: "get_live item = Inr r"
    and rest: "map get_live items = map Inr rs'"
    by (cases rs) auto
  from Cons.prems(2) rs obtain k where k: "live_key r = Inr k"
    and all': "\<forall>r\<in>set rs'. \<exists>k. live_key r = Inr k"
    by auto
  have step: "marks_step open_positions a item =
          Inr \<lparr>position_value_dollars = position_value_dollars a + live_size r * current_price r,
               unrealized_pnl = unrealized_pnl a + paper_gain open_positions r\<rparr>"
    using gl k
    by (simp add: marks_step_def apply_live_def paper_gain_def live_key_def Let_def
             split: option.split)
  show ?case
    using step Cons.IH[OF rest all'] by (simp add: rs algebra_simps)
qed

text \<open>
  The ledger holds 10 shares of \<^verbatim>\<open>m\<close> bought for 5 dollars. The live snapshot reports 4
  shares of \<^verbatim>\<open>m\<close> at 0.60 and 2 shares of an unknown market at 0.50: the value is
  2.40 + 1.00, the unrealized PnL 4 * 0.60 - 4 * 0.50.
\<close>

theorem reconciliation_sums_witness:
  "marks_loop [yes_key ''m'' \<mapsto> \<lparr>shares = 10, cost_basis = 5\<rparr>] init_marks
     [live_record 4 (3 / 5) ''m'', live_record 2 (1 / 2) ''other''] =
     Inr \<lparr>position_value_dollars = 17 / 5, unrealized_pnl = 2 / 5\<rparr>"
proof -
  let ?r1 = "\<lparr>live_size = 4, current_price = 3 / 5, live_market_id = JStr ''m'',
              live_outcome = JStr ''Yes''\<rparr>"
  let ?r2 = "\<lparr>live_size = 2, current_price = 1 / 2, live_market_id = JStr ''other'',
              live_outcome = JStr ''Yes''\<rparr>"
  have h1: "map get_live [live_record 4 (3 / 5) ''m'', live_record 2 (1 / 2) ''other'']
              = map Inr [?r1, ?r2]"
    by (simp add: get_live_record)
  have h2: "\<forall>r\<in>set [?r1, ?r2]. \<exists>k. live_key r = Inr k"
    by (simp add: live_key_def position_key_def)
  from reconciliation_sums[OF h1 h2, of "[yes_key ''m'' \<mapsto> \<lparr>shares = 10, cost_basis = 5\<rparr>]" init_marks]
  show ?thesis
    by (simp add: init_marks_def paper_gain_def live_key_def position_key_def yes_key_def)
qed

subsection \<open>C7: a size or price that is missing, null or malformed\<close>

text \<open>
  C7 as stated fails for a malformed value: \<^verbatim>\<open>float("abc")\<close> raises inside the loop,
  the handler of line 134 catches it, and the wallet's valid trade before it is lost with
  the rest: the function returns all-zero metrics and no position.
\<close>

theorem malformed_size_counterexample:
  "fetch_user_trades_with_prices
     (Body (JList [trade_record ''BUY'' 10 (1 / 2) ''m'',
                   JObj [(''side'', JStr ''BUY''), (''size'', JStr ''abc''),
                         (''price'', JNum (1 / 2)), (''market'', JStr ''m''),
                         (''outcome'', JStr ''Yes'')]])) =
     Pair_result
       \<lparr>m_total_dollar_volume = 0, m_avg_trade_dollars = 0, m_realized_pnl = 0, m_win_rate = 0,
        m_winning_trades = 0, m_losing_trades = 0, m_total_trades = 0\<rparr>
       Map.empty"
proof -
  have "get_trade (JObj [(''side'', JStr ''BUY''), (''size'', JStr ''abc''),
                         (''price'', JNum (1 / 2)), (''market'', JStr ''m''),
                         (''outcome'', JStr ''Yes'')]) = Inl ValueError"
    by (simp add: get_trade_def float_field_def dict_get_def py_or_def float_of_str_simps)
  then show ?thesis
    by (simp add: run_simps zero_metrics_def)
qed

text \<open>
  C7, amended. A \<^verbatim>\<open>size\<close> or \<^verbatim>\<open>price\<close> that is missing, null or otherwise falsy
  reads as 0 without raising, and a record that reads, with a hashable key, adds one to
  the trade count and its \<open>size * price\<close> to the dollar volume. A value \<^verbatim>\<open>float\<close>
  rejects raises: then the whole wallet comes back with all-zero metrics and an empty
  position map.
\<close>

theorem falsy_field_reads_zero:
  "(\<not> truthy (dict_get kvs f (JNum 0)) \<longrightarrow> float_field kvs f = Inr 0) \<and>
   (get_trade (JObj kvs) = Inr t \<longrightarrow>
      (\<not> truthy (dict_get kvs ''size'' (JNum 0)) \<longrightarrow> size_val t = 0) \<and>
      (\<not> truthy (dict_get kvs ''price'' (JNum 0)) \<longrightarrow> price t = 0)) \<and>
   (get_trade (JObj kvs) = Inr t \<and> trade_key t = Inr k \<longrightarrow>
      (\<exists>s'. ledger_step s (JObj kvs) = Inr s' \<and>
            trade_count s' = trade_count s + 1 \<and>
            total_dollar_volume s' = total_dollar_volume s + size_val t * price t)) \<and>
   (JObj kvs \<in> set items \<and>
      (float_field kvs ''size'' = Inl e \<or> float_field kvs ''price'' = Inl e) \<longrightarrow>
      fetch_user_trades_with_prices (Body (JList items)) = Pair_result zero_metrics Map.empty)"
proof -
  have a: "\<not> truthy (dict_get kvs f (JNum 0)) \<longrightarrow> float_field kvs f = Inr 0"
    by (simp add: falsy_field_zero)
  have b: "get_trade (JObj kvs) = Inr t \<longrightarrow>
      (\<not> truthy (dict_get kvs ''size'' (JNum 0)) \<longrightarrow> size_val t = 0) \<and>
      (\<not> truthy (dict_get kvs ''price'' (JNum 0)) \<longrightarrow> price t = 0)"
    using get_trade_fields[of kvs t] falsy_field_zero[of kvs "''size''"]
      falsy_field_zero[of kvs "''price''"]
    by auto
  have c: "get_trade (JObj kvs) = Inr t \<and> trade_key t = Inr k \<longrightarrow>
      (\<exists>s'. ledger_step s (JObj kvs) = Inr s' \<and>
            trade_count s' = trade_count s + 1 \<and>
            total_dollar_volume s' = total_dollar_volume s + size_val t * price t)"
  proof
    assume h: "get_trade (JObj kvs) = Inr t \<and> trade_key t = Inr k"
    then obtain s' where s': "apply_trade s t = Inr s'"
      using apply_trade_ok by blast
    then have "ledger_step s (JObj kvs) = Inr s'"
      using h by (simp add: ledger_step_def)
    with apply_trade_counts[OF s'] show "\<exists>s'. ledger_step s (JObj kvs) = Inr s' \<and>
            trade_count s' = trade_count s + 1 \<and>
            total_dollar_volume s' = total_dollar_volume s + size_val t * price t"
      by blast
  qed
  have d: "JObj kvs \<in> set items \<and>
      (float_field kvs ''size'' = Inl e \<or> float_field kvs ''price'' = Inl e) \<longrightarrow>
      fetch_user_trades_with_prices (Body (JList items)) = Pair_result zero_metrics Map.empty"
    using wallet_zeroed by blast
  from a b c d show ?thesis by blast
qed

text \<open>
  A buy whose \<^verbatim>\<open>size\<close> is null reads as size 0 and is counted; a buy whose \<^verbatim>\<open>size\<close>
  is the string \<^verbatim>\<open>abc\<close> zeroes the wallet.
\<close>

theorem falsy_field_reads_zero_witness:
  "float_field [(''side'', JStr ''BUY''), (''size'', JNull), (''price'', JNum (1 / 2)),
                (''market'', JStr ''m''), (''outcome'', JStr ''Yes'')] ''size'' = Inr 0 \<and>
   (\<exists>s'. ledger_step init_ledger
            (JObj [(''side'', JStr ''BUY''), (''size'', JNull), (''price'', JNum (1 / 2)),
                   (''market'', JStr ''m''), (''outcome'', JStr ''Yes'')]) = Inr s' \<and>
          trade_count s' = 1 \<and> total_dollar_volume s' = 0) \<and>
   fetch_user_trades_with_prices
     (Body (JList [trade_record ''BUY'' 10 (1 / 2) ''m'',
                   JObj [(''side'', JStr ''BUY''), (''size'', JStr ''abc'')]])) =
     Pair_result zero_metrics Map.empty"
proof -
  let ?kvs = "[(''side'', JStr ''BUY''), (''size'', JNull), (''price'', JNum (1 / 2)),
               (''market'', JStr ''m''), (''outcome'', JStr ''Yes'')]"
  let ?t = "a_trade ''BUY'' 0 (1 / 2) ''m''"
  let ?bad = "[(''side'', JStr ''BUY''), (''size'', JStr ''abc'')]"
  let ?items = "[trade_record ''BUY'' 10 (1 / 2) ''m'', JObj ?bad]"
  have h1: "\<not> truthy (dict_get ?kvs ''size'' (JNum 0))"
    by (simp add: dict_get_def)
  have h2: "get_trade (JObj ?kvs) = Inr ?t"
    by (simp add: get_trade_def float_field_def dict_get_def py_or_def upper_char_def a_trade_def)
  have h3: "trade_key ?t = Inr (yes_key ''m'')"
    by (simp add: trade_key_a_trade)
  have h4: "JObj ?bad \<in> set ?items" by simp
  have h5: "float_field ?bad ''size'' = Inl ValueError"
    by (simp add: float_field_def dict_get_def py_or_def float_of_str_simps)
  note w1 = falsy_field_reads_zero[of ?kvs "''size''" ?t "yes_key ''m''" init_ledger ?items ValueError]
  note w2 = falsy_field_reads_zero[of ?bad "''size''" ?t "yes_key ''m''" init_ledger ?items ValueError]
  have p1: "float_field ?kvs ''size'' = Inr 0" using w1 h1 by blast
  have p2: "\<exists>s'. ledger_step init_ledger (JObj ?kvs) = Inr s' \<and>
            trade_count s' = trade_count init_ledger + 1 \<and>
            total_dollar_volume s' = total_dollar_volume init_ledger + size_val ?t * price ?t"
    using w1 h2 h3 by blast
  have p3: "fetch_user_trades_with_prices (Body (JList ?items)) = Pair_result zero_metrics Map.empty"
    using w2 h4 h5 by blast
  from p1 p2 p3 show ?thesis
    by (simp add: init_ledger_def a_trade_sel)
qed

subsection \<open>C8: where amounts are rounded\<close>

text \<open>
  C8 as stated fails. A sale realizes 0.004 and an open position has an unrealized gain
  of 0.004: at full precision their sum is 0.008, which rounds to 0.01. The code rounds
  each to 0.00 where its function returns (lines 125 and 202) and adds the rounded
  values, so the row reports a total PnL of 0.
\<close>

theorem total_pnl_counterexample:
  "ledger_loop init_ledger
      [trade_record ''BUY'' 1 (1 / 2) ''m1'', trade_record ''SELL'' 1 (63 / 125) ''m1'',
       trade_record ''BUY'' 1 (1 / 2) ''m2''] =
     Inr \<lparr>total_dollar_volume = 188 / 125, trade_count = 3,
          positions = [yes_key ''m2'' \<mapsto> \<lparr>shares = 1, cost_basis = 1 / 2\<rparr>],
          realized_pnl = 1 / 250, winning_trades = 1, losing_trades = 0\<rparr> \<and>
   marks_loop [yes_key ''m2'' \<mapsto> \<lparr>shares = 1, cost_basis = 1 / 2\<rparr>] init_marks
      [live_record 1 (63 / 125) ''m2''] =
     Inr \<lparr>position_value_dollars = 63 / 125, unrealized_pnl = 1 / 250\<rparr> \<and>
   round2 (1 / 250 + 1 / 250) = 1 / 100 \<and>
   enhance_user
      (Body (JList [trade_record ''BUY'' 1 (1 / 2) ''m1'',
                    trade_record ''SELL'' 1 (63 / 125) ''m1'',
                    trade_record ''BUY'' 1 (1 / 2) ''m2'']))
      (Body (JList [live_record 1 (63 / 125) ''m2''])) =
     Inr \<lparr>p_total_dollar_volume = 3 / 2, p_avg_trade_dollars = 1 / 2, p_realized_pnl = 0,
          p_unrealized_pnl = 0, p_total_pnl = 0, p_win_rate_percent = 100,
          p_winning_trades = 1, p_losing_trades = 0, p_position_value_dollars = 1 / 2\<rparr>"
proof -
  have a: "ledger_loop init_ledger
      [trade_record ''BUY'' 1 (1 / 2) ''m1'', trade_record ''SELL'' 1 (63 / 125) ''m1'',
       trade_record ''BUY'' 1 (1 / 2) ''m2''] =
     Inr \<lparr>total_dollar_volume = 188 / 125, trade_count = 3,
          positions = [yes_key ''m2'' \<mapsto> \<lparr>shares = 1, cost_basis = 1 / 2\<rparr>],
          realized_pnl = 1 / 250, winning_trades = 1, losing_trades = 0\<rparr>"
    by (simp add: run_simps)
  have b: "marks_loop [yes_key ''m2'' \<mapsto> \<lparr>shares = 1, cost_basis = 1 / 2\<rparr>] init_marks
      [live_record 1 (63 / 125) ''m2''] =
     Inr \<lparr>position_value_dollars = 63 / 125, unrealized_pnl = 1 / 250\<rparr>"
    by (simp add: marks_simps yes_key_def)
  have c: "round2 (1 / 250 + 1 / 250) = 1 / 100"
    by (simp add: round2_def round_half_even_def)
  have d: "enhance_user
      (Body (JList [trade_record ''BUY'' 1 (1 / 2) ''m1'',
                    trade_record ''SELL'' 1 (63 / 125) ''m1'',
                    trade_record ''BUY'' 1 (1 / 2) ''m2'']))
      (Body (JList [live_record 1 (63 / 125) ''m2''])) =
     Inr \<lparr>p_total_dollar_volume = 3 / 2, p_avg_trade_dollars = 1 / 2, p_realized_pnl = 0,
          p_unrealized_pnl = 0, p_total_pnl = 0, p_win_rate_percent = 100,
          p_winning_trades = 1, p_losing_trades = 0, p_position_value_dollars = 1 / 2\<rparr>"
    by (simp add: enhance_user_def unpack2_def run_simps marks_simps)
  from a b c d show ?thesis by blast
qed

text \<open>
  C8, amended. When both requests give lists that the loops get through, the row's
  realized and unrealized PnL are the loops' values rounded to two decimals, and the
  total PnL is the sum of these two rounded values, rounded to two decimals again.
\<close>

theorem total_pnl_of_rounded:
  assumes "items_of td = Inr its" and "truthy its" and "py_iter its = Inr xs"
    and "ledger_loop init_ledger xs = Inr s"
    and "items_of pd = Inr pits" and "py_iter pits = Inr ys"
    and "marks_loop (positions s) init_marks ys = Inr a"
  shows "\<exists>p. enhance_user (Body td) (Body pd) = Inr p \<and>
           p_realized_pnl p = round2 (realized_pnl s) \<and>
           p_unrealized_pnl p = round2 (unrealized_pnl a) \<and>
           p_total_pnl p = round2 (round2 (realized_pnl s) + round2 (unrealized_pnl a))"
proof -
  have t: "fetch_user_trades_with_prices (Body td) = Pair_result (metrics_of s) (positions s)"
    using assms(1-4) by (simp add: fetch_user_trades_with_prices_def)
  have p: "fetch_user_positions_dollars (Body pd) (positions s) = rounded_marks a"
    using assms(5-7) by (simp add: fetch_user_positions_dollars_def)
  show ?thesis
    by (simp add: enhance_user_def unpack2_def t p Let_def metrics_of_def rounded_marks_def)
qed

text \<open>
  The end-to-end scenario of the specification, with the 70 remaining shares marked at
  0.50: realized 18.67, unrealized 9.33, total 28.00.
\<close>

theorem total_pnl_of_rounded_witness:
  "\<exists>p. enhance_user
          (Body (JList [trade_record ''BUY'' 100 (3 / 10) ''m'',
                        trade_record ''BUY'' 50 (1 / 2) ''m'',
                        trade_record ''SELL'' 80 (3 / 5) ''m'']))
          (Body (JList [live_record 70 (1 / 2) ''m''])) = Inr p \<and>
        p_realized_pnl p = 1867 / 100 \<and> p_unrealized_pnl p = 933 / 100 \<and> p_total_pnl p = 28"
proof -
  let ?xs = "[trade_record ''BUY'' 100 (3 / 10) ''m'', trade_record ''BUY'' 50 (1 / 2) ''m'',
              trade_record ''SELL'' 80 (3 / 5) ''m'']"
  let ?ys = "[live_record 70 (1 / 2) ''m'']"
  let ?s = "\<lparr>total_dollar_volume = 103, trade_count = 3,
             positions = [yes_key ''m'' \<mapsto> \<lparr>shares = 70, cost_basis = 77 / 3\<rparr>],
             realized_pnl = 56 / 3, winning_trades = 1, losing_trades = 0\<rparr>"
  let ?a = "\<lparr>position_value_dollars = 35, unrealized_pnl = 28 / 3\<rparr>"
  have h1: "items_of (JList ?xs) = Inr (JList ?xs)" by simp
  have h2: "truthy (JList ?xs)" by simp
  have h3: "py_iter (JList ?xs) = Inr ?xs" by simp
  have h4: "ledger_loop init_ledger ?xs = Inr ?s" by (simp add: run_simps)
  have h5: "items_of (JList ?ys) = Inr (JList ?ys)" by simp
  have h6: "py_iter (JList ?ys) = Inr ?ys" by simp
  have h7: "marks_loop (positions ?s) init_marks ?ys = Inr ?a"
    by (simp add: marks_simps yes_key_def)
  from total_pnl_of_rounded[OF h1 h2 h3 h4 h5 h6 h7] obtain p where
    "enhance_user (Body (JList ?xs)) (Body (JList ?ys)) = Inr p"
    "p_realized_pnl p = round2 (56 / 3)" "p_unrealized_pnl p = round2 (28 / 3)"
    "p_total_pnl p = round2 (round2 (56 / 3) + round2 (28 / 3))"
    by auto
  moreover have "round2 (56 / 3) = 1867 / 100" "round2 (28 / 3) = 933 / 100"
    "round2 (1867 / 100 + 933 / 100) = 28"
    by (simp_all add: round2_def round_half_even_def)
  ultimately show ?thesis by auto
qed

subsection \<open>C9: the win rate\<close>

text \<open>
  C9 as stated fails: the function reports the rate rounded to two decimals (line 126).
  With one winning and two losing sells it reports 33.33, not \<open>1 / 3 * 100\<close>.
\<close>

theorem win_rate_counterexample:
  "fetch_user_trades_with_prices
     (Body (JList [trade_record ''BUY'' 3 (1 / 2) ''m'', trade_record ''SELL'' 1 (3 / 5) ''m'',
                   trade_record ''SELL'' 1 (2 / 5) ''m'',
                   trade_record ''SELL'' 1 (3 / 10) ''m''])) =
     Pair_result
       \<lparr>m_total_dollar_volume = 14 / 5, m_avg_trade_dollars = 7 / 10, m_realized_pnl = - 1 / 5,
        m_win_rate = 3333 / 100, m_winning_trades = 1, m_losing_trades = 2,
        m_total_trades = 4\<rparr>
       Map.empty \<and>
   (3333 / 100 :: real) \<noteq> real 1 / real (1 + 2) * 100"
  by (simp add: run_simps)

text \<open>
  C9, amended. Whatever the request gives, the reported win rate is
  \<open>winning / (winning + losing) * 100\<close> rounded to two decimals when the reported counts
  are not both 0, and 0 when they are; no division by zero arises. One winning and
  one losing trade give 50.
\<close>

theorem win_rate_rounded:
  "(let m = result_metrics (fetch_user_trades_with_prices resp);
        w = m_winning_trades m; l = m_losing_trades m
    in m_win_rate m = round2 (if 0 < w + l then real w / real (w + l) * 100 else 0) \<and>
       (w + l = 0 \<longrightarrow> m_win_rate m = 0) \<and>
       (w = 1 \<and> l = 1 \<longrightarrow> m_win_rate m = 50))"
proof -
  have z: "m_win_rate zero_metrics = 0" "m_winning_trades zero_metrics = 0"
    "m_losing_trades zero_metrics = 0"
    by (simp_all add: zero_metrics_def)
  have r50: "round2 50 = 50"
    by (simp add: round2_def round_half_even_def)
  have m: "\<And>s. m_win_rate (metrics_of s) = round2 (win_rate_of (winning_trades s) (losing_trades s))"
    "\<And>s. m_winning_trades (metrics_of s) = winning_trades s"
    "\<And>s. m_losing_trades (metrics_of s) = losing_trades s"
    by (simp_all add: metrics_of_def Let_def)
  show ?thesis
    by (auto simp: fetch_user_trades_with_prices_def Let_def z m win_rate_of_def round2_zero r50
          split: response.split sum.split)
qed

text \<open>One sell above the average cost and one below it: the rate is 50.\<close>

theorem win_rate_rounded_witness:
  "m_winning_trades (result_metrics (fetch_user_trades_with_prices
     (Body (JList [trade_record ''BUY'' 2 (1 / 2) ''m'', trade_record ''SELL'' 1 (3 / 5) ''m'',
                   trade_record ''SELL'' 1 (2 / 5) ''m''])))) = 1 \<and>
   m_losing_trades (result_metrics (fetch_user_trades_with_prices
     (Body (JList [trade_record ''BUY'' 2 (1 / 2) ''m'', trade_record ''SELL'' 1 (3 / 5) ''m'',
                   trade_record ''SELL'' 1 (2 / 5) ''m''])))) = 1 \<and>
   m_win_rate (result_metrics (fetch_user_trades_with_prices
     (Body (JList [trade_record ''BUY'' 2 (1 / 2) ''m'', trade_record ''SELL'' 1 (3 / 5) ''m'',
                   trade_record ''SELL'' 1 (2 / 5) ''m''])))) = 50"
proof -
  let ?resp = "Body (JList [trade_record ''BUY'' 2 (1 / 2) ''m'',
                            trade_record ''SELL'' 1 (3 / 5) ''m'',
                            trade_record ''SELL'' 1 (2 / 5) ''m''])"
  have w: "m_winning_trades (result_metrics (fetch_user_trades_with_prices ?resp)) = 1"
    by (simp add: run_simps)
  have l: "m_losing_trades (result_metrics (fetch_user_trades_with_prices ?resp)) = 1"
    by (simp add: run_simps)
  from win_rate_rounded[of ?resp] w l
  have "m_win_rate (result_metrics (fetch_user_trades_with_prices ?resp)) = 50"
    unfolding Let_def by blast
  with w l show ?thesis by blast
qed

subsection \<open>C10: size or tokens\<close>

text \<open>
  C10 as stated fails in its "only when": the size is 0 also for a field that is present
  and truthy but whose float is 0. The string \<^verbatim>\<open>"0"\<close> is truthy, so \<^verbatim>\<open>tokens\<close> is
  taken, and \<^verbatim>\<open>float("0")\<close> is 0.
\<close>

theorem size_zero_counterexample:
  "position_size [(''size'', JNum 0), (''tokens'', JStr ''0'')] = Inr 0 \<and>
   truthy (dict_get [(''size'', JNum 0), (''tokens'', JStr ''0'')] ''tokens'' (JNum 0))"
  by (simp add: position_size_def py_or_def dict_get_def float_of_str_simps)

text \<open>
  C10, amended. When \<^verbatim>\<open>size\<close> is absent, null or otherwise falsy, the position size is
  \<^verbatim>\<open>float\<close> of the \<^verbatim>\<open>tokens\<close> field when that is truthy and 0 when it is absent or
  falsy too. A \<^verbatim>\<open>tokens\<close> field that is a JSON number gives size 0 only when it is 0;
  a nonzero number of tokens replaces a reported size of 0.
\<close>

theorem size_falls_back_to_tokens:
  assumes "\<not> truthy (dict_get kvs ''size'' (JNum 0))"
  shows "position_size kvs =
           (if truthy (dict_get kvs ''tokens'' (JNum 0))
            then py_float (dict_get kvs ''tokens'' (JNum 0)) else Inr 0) \<and>
         (\<forall>x. dict_get kvs ''tokens'' (JNum 0) = JNum x \<longrightarrow>
              (position_size kvs = Inr x \<and> (position_size kvs = Inr 0) = (x = 0)))"
  using assms by (auto simp: position_size_def py_or_def)

text \<open>A reported size of 0 with 5 tokens gives size 5.\<close>

theorem size_falls_back_to_tokens_witness:
  "\<not> truthy (dict_get [(''size'', JNum 0), (''tokens'', JNum 5)] ''size'' (JNum 0)) \<and>
   position_size [(''size'', JNum 0), (''tokens'', JNum 5)] = Inr 5"
proof -
  let ?kvs = "[(''size'', JNum 0), (''tokens'', JNum 5)]"
  have h: "\<not> truthy (dict_get ?kvs ''size'' (JNum 0))"
    by (simp add: dict_get_def)
  have t: "dict_get ?kvs ''tokens'' (JNum 0) = JNum 5"
    by (simp add: dict_get_def)
  from size_falls_back_to_tokens[OF h] t have "position_size ?kvs = Inr 5"
    by blast
  with h show ?thesis by blast
qed

end
